theory Spec2Isabelle
  imports Complex_Main
begin

section \<open>Silence removal backend: \<^verbatim>\<open>src/backend/main.py\<close>\<close>

text \<open>
  The backend has two functions. \<^verbatim>\<open>get_non_silent_chunks\<close> decodes an audio file, asks
  pydub's \<^verbatim>\<open>detect_silence\<close> for the silent ranges (in milliseconds) and inverts them
  into the ranges to keep (in seconds). \<^verbatim>\<open>process_video\<close> is the request handler: it
  reads the form, maps the sensitivity percent to a decibel threshold, calls
  \<^verbatim>\<open>get_non_silent_chunks\<close> and hands the result to moviepy.

  Modelling decisions.
  \<^item> Python's \<^verbatim>\<open>int\<close> is \<^typ>\<open>int\<close>. Python's \<^verbatim>\<open>float\<close> is \<^typ>\<open>real\<close>: the division
    \<^verbatim>\<open>x / 1000.0\<close> and the sum \<^verbatim>\<open>-70 + p\<close> are exact here, rounding, infinities and NaN
    are outside the model.
  \<^item> pydub and moviepy are libraries, not code of the repository. What they return is
    an input of the model: a decoded audio carries its length \<^verbatim>\<open>len(audio)\<close> and, for
    every pair of parameters, what \<^verbatim>\<open>detect_silence\<close> does on it; a call that may
    raise is an \<open>option\<close> (\<open>None\<close>: it raises).
  \<^item> Logging and the removal of temporary files do not change any returned value and
    are left out.
\<close>

subsection \<open>Data\<close>

type_synonym chunk_ms = "int \<times> int"
type_synonym chunk_sec = "real \<times> real"

text \<open>
  A decoded \<^verbatim>\<open>AudioSegment\<close>: \<open>len\<close> is \<^verbatim>\<open>len(audio)\<close>, its duration in milliseconds;
  \<open>detect_silence audio min_silence_len silence_thresh\<close> is \<open>Some\<close> of the list of
  \<^verbatim>\<open>[start_ms, end_ms]\<close> ranges pydub returns for it, and \<open>None\<close> when the call raises
  (pydub computes \<^verbatim>\<open>10 ** (silence_thresh / 20)\<close>, which overflows for a very high
  threshold).
\<close>

record audio_segment =
  len :: int
  detect_silence :: "int \<Rightarrow> real \<Rightarrow> chunk_ms list option"

text \<open>
  The exceptions the source can meet: the decoder refusing the file inside
  \<^verbatim>\<open>AudioSegment.from_file\<close>, an exception raised inside \<^verbatim>\<open>detect_silence\<close>, and
  \<^verbatim>\<open>float()\<close> refusing the text of the form field.
\<close>

datatype error = CouldntDecode | DetectSilenceRaised | ValueError

subsection \<open>\<^verbatim>\<open>get_non_silent_chunks\<close> (lines 16 to 46)\<close>

text \<open>\<^verbatim>\<open>x / 1000.0\<close>: milliseconds to seconds.\<close>

definition sec :: "int \<Rightarrow> real" where
  "sec x = real_of_int x / 1000"

definition chunk_to_sec :: "chunk_ms \<Rightarrow> chunk_sec" where
  "chunk_to_sec c = (sec (fst c), sec (snd c))"

text \<open>
  The \<^verbatim>\<open>for start_ms, end_ms in silence_chunks\<close> loop of lines 37 to 40. The state is
  \<^verbatim>\<open>last_end_ms\<close> and the list \<^verbatim>\<open>non_silent_chunks\<close>, returned as a pair
  \<open>(non_silent_chunks, last_end_ms)\<close>.
\<close>

fun invert_loop :: "chunk_ms list \<Rightarrow> int \<Rightarrow> chunk_sec list \<Rightarrow> chunk_sec list \<times> int" where
  "invert_loop [] last_end_ms non_silent_chunks = (non_silent_chunks, last_end_ms)"
| "invert_loop ((start_ms, end_ms) # rest) last_end_ms non_silent_chunks =
     invert_loop rest end_ms
       (if start_ms > last_end_ms
        then non_silent_chunks @ [(sec last_end_ms, sec start_ms)]
        else non_silent_chunks)"

text \<open>Lines 42 and 43: the chunk after the last silence, when there is one.\<close>

fun append_tail :: "int \<Rightarrow> chunk_sec list \<times> int \<Rightarrow> chunk_sec list" where
  "append_tail len_audio (non_silent_chunks, last_end_ms) =
     (if last_end_ms < len_audio
      then non_silent_chunks @ [(sec last_end_ms, sec len_audio)]
      else non_silent_chunks)"

text \<open>
  Lines 30 to 46: what \<^verbatim>\<open>get_non_silent_chunks\<close> returns once \<^verbatim>\<open>len(audio)\<close> and
  \<^verbatim>\<open>silence_chunks\<close> are known. The first component of the early return is the Python
  integer \<^verbatim>\<open>0\<close>, which equals the float \<^verbatim>\<open>0.0\<close>.
\<close>

definition invert_silence_chunks :: "int \<Rightarrow> chunk_ms list \<Rightarrow> chunk_sec list" where
  "invert_silence_chunks len_audio silence_chunks =
     (if silence_chunks = [] then [(0, sec len_audio)]
      else append_tail len_audio (invert_loop silence_chunks 0 []))"

text \<open>
  The whole function. Its first argument stands for \<^verbatim>\<open>AudioSegment.from_file(audio_path)\<close>:
  \<open>None\<close> when the decoder raises. The function catches nothing, so an exception of
  line 21 or of lines 24 to 28 leaves it.
\<close>

definition get_non_silent_chunks ::
  "audio_segment option \<Rightarrow> real \<Rightarrow> int \<Rightarrow> error + chunk_sec list" where
  "get_non_silent_chunks from_file silence_thresh_db min_silence_len_ms =
     (case from_file of
        None \<Rightarrow> Inl CouldntDecode
      | Some audio \<Rightarrow>
          (case detect_silence audio min_silence_len_ms silence_thresh_db of
             None \<Rightarrow> Inl DetectSilenceRaised
           | Some silence_chunks \<Rightarrow>
               Inr (invert_silence_chunks (len audio) silence_chunks)))"

subsection \<open>\<^verbatim>\<open>process_video\<close> (lines 48 to 112)\<close>

text \<open>
  A form field is text. \<^verbatim>\<open>float()\<close> either reads a number from it or raises
  \<^verbatim>\<open>ValueError\<close>; the model keeps that outcome and not the characters.
\<close>

datatype form_value = Numeric real | NotNumeric

text \<open>
  The loaded \<^verbatim>\<open>VideoFileClip\<close>: whether \<^verbatim>\<open>video_clip.audio\<close> is not \<^verbatim>\<open>None\<close>; what
  \<^verbatim>\<open>AudioSegment.from_file\<close> reads back from the file \<^verbatim>\<open>write_audiofile\<close> wrote (\<open>None\<close>
  when either raises); and whether \<^verbatim>\<open>subclip\<close>, \<^verbatim>\<open>concatenate_videoclips\<close> and
  \<^verbatim>\<open>write_videofile\<close> go through for a list of timestamps.
\<close>

record video_clip =
  has_audio :: bool
  written_audio :: "audio_segment option"
  assembles :: "chunk_sec list \<Rightarrow> bool"

text \<open>
  \<^verbatim>\<open>request.files['video']\<close>: its file name and what \<^verbatim>\<open>VideoFileClip(video_path)\<close> makes
  of it (\<open>None\<close> when it raises).
\<close>

record upload =
  filename :: string
  clip :: "video_clip option"

record request =
  video :: "upload option"
  threshold :: "form_value option"

text \<open>
  What the handler answers: a JSON error with its status code, the assembled file
  (download name and the timestamps of the subclips it is made of), or an exception that
  leaves the handler uncaught.
\<close>

datatype response =
    JsonError string nat
  | SendFile string "chunk_sec list"
  | Uncaught error

text \<open>Line 58: \<^verbatim>\<open>float(request.form.get('threshold', 30))\<close>.\<close>

fun threshold_percent_of :: "form_value option \<Rightarrow> error + real" where
  "threshold_percent_of None = Inr 30"
| "threshold_percent_of (Some (Numeric p)) = Inr p"
| "threshold_percent_of (Some NotNumeric) = Inl ValueError"

text \<open>Line 59: \<^verbatim>\<open>silence_thresh_db = -70 + threshold_percent\<close>.\<close>

definition silence_thresh_db_of :: "real \<Rightarrow> real" where
  "silence_thresh_db_of threshold_percent = -70 + threshold_percent"

text \<open>Line 60.\<close>

definition min_silence_len_ms :: int where
  "min_silence_len_ms = 500"

text \<open>The answer of the \<^verbatim>\<open>except Exception\<close> branch, lines 102 to 104.\<close>

definition internal_error :: response where
  "internal_error = JsonError ''An internal error occurred during video processing.'' 500"

text \<open>
  The body of the \<^verbatim>\<open>try\<close> statement with its \<^verbatim>\<open>except\<close> branch, lines 71 to 104:
  every exception raised inside ends in \<open>internal_error\<close>.
\<close>

definition try_block :: "upload \<Rightarrow> real \<Rightarrow> int \<Rightarrow> response" where
  "try_block video_file silence_thresh_db min_silence_len =
     (case clip video_file of
        None \<Rightarrow> internal_error
      | Some video_clip \<Rightarrow>
          if \<not> has_audio video_clip
          then JsonError ''Video file does not contain an audio track.'' 400
          else
            (case get_non_silent_chunks (written_audio video_clip)
                    silence_thresh_db min_silence_len of
               Inl e \<Rightarrow> internal_error
             | Inr non_silent_timestamps \<Rightarrow>
                 if non_silent_timestamps = []
                 then JsonError ''No audio detected in the video'' 400
                 else if assembles video_clip non_silent_timestamps
                 then SendFile (''processed_'' @ filename video_file) non_silent_timestamps
                 else internal_error))"

text \<open>
  The handler. Line 58 is outside the \<^verbatim>\<open>try\<close>, so its \<^verbatim>\<open>ValueError\<close> is not caught
  by the handler.
\<close>

definition process_video :: "request \<Rightarrow> response" where
  "process_video req =
     (case video req of
        None \<Rightarrow> JsonError ''No video file provided'' 400
      | Some video_file \<Rightarrow>
          (case threshold_percent_of (threshold req) of
             Inl e \<Rightarrow> Uncaught e
           | Inr threshold_percent \<Rightarrow>
               try_block video_file (silence_thresh_db_of threshold_percent)
                 min_silence_len_ms))"

subsection \<open>Properties of interval lists\<close>

text \<open>
  A silence list is well formed for a duration \<open>D\<close> (milliseconds) when every range lies
  in \<open>[0, D]\<close> with its start not after its end, and every range ends before or where
  each later one starts. Ranges with \<open>start < end\<close>, as pydub reports them, are included.
\<close>

definition wf_silence :: "int \<Rightarrow> chunk_ms list \<Rightarrow> bool" where
  "wf_silence D silence_chunks =
     (list_all (\<lambda>c. 0 \<le> fst c \<and> fst c \<le> snd c \<and> snd c \<le> D) silence_chunks \<and>
      sorted_wrt (\<lambda>a b. snd a \<le> fst b) silence_chunks)"

text \<open>The half-open interval \<open>[start, end)\<close> of a chunk contains the instant \<open>t\<close>.\<close>

definition covers :: "real \<Rightarrow> chunk_sec \<Rightarrow> bool" where
  "covers t c = (fst c \<le> t \<and> t < snd c)"

text \<open>How many chunks of a list contain the instant \<open>t\<close>.\<close>

definition coverage :: "real \<Rightarrow> chunk_sec list \<Rightarrow> nat" where
  "coverage t cs = length (filter (covers t) cs)"

text \<open>Chunk \<open>a\<close> starts strictly before chunk \<open>b\<close> and ends before or where \<open>b\<close> starts.\<close>

definition before :: "chunk_sec \<Rightarrow> chunk_sec \<Rightarrow> bool" where
  "before a b = (fst a < fst b \<and> snd a \<le> fst b)"

subsection \<open>Sample inputs\<close>

text \<open>
  A one second recording whose first half is quiet: pydub reports it as silence only
  when the threshold is at least \<open>-15\<close> dB, and raises when the threshold is so high
  that the power of ten overflows.
\<close>

definition quiet_start_audio :: audio_segment where
  "quiet_start_audio =
     \<lparr>len = 1000,
      detect_silence =
        (\<lambda>min_len thresh.
           if 6166 \<le> thresh then None
           else if - 15 \<le> thresh then Some [(0, 500)]
           else Some [])\<rparr>"

definition quiet_start_request :: "form_value option \<Rightarrow> request" where
  "quiet_start_request field =
     \<lparr>video = Some \<lparr>filename = ''talk.mp4'',
                     clip = Some \<lparr>has_audio = True,
                                  written_audio = Some quiet_start_audio,
                                  assembles = (\<lambda>ts. True)\<rparr>\<rparr>,
      threshold = field\<rparr>"

text \<open>A one second recording that pydub reports as silent from start to end.\<close>

definition all_quiet_audio :: audio_segment where
  "all_quiet_audio = \<lparr>len = 1000, detect_silence = (\<lambda>min_len thresh. Some [(0, 1000)])\<rparr>"

definition all_quiet_request :: request where
  "all_quiet_request =
     \<lparr>video = Some \<lparr>filename = ''talk.mp4'',
                     clip = Some \<lparr>has_audio = True,
                                  written_audio = Some all_quiet_audio,
                                  assembles = (\<lambda>ts. True)\<rparr>\<rparr>,
      threshold = None\<rparr>"

text \<open>A decoded audio of duration zero, on which pydub finds no silence.\<close>

definition zero_length_audio :: audio_segment where
  "zero_length_audio = \<lparr>len = 0, detect_silence = (\<lambda>min_len thresh. Some [])\<rparr>"

section \<open>Helper lemmas\<close>

lemma sec_le_iff: "sec a \<le> sec b \<longleftrightarrow> a \<le> b"
  by (simp add: sec_def)

lemma sec_less_iff: "sec a < sec b \<longleftrightarrow> a < b"
  by (simp add: sec_def)

lemma sec_zero: "sec 0 = 0"
  by (simp add: sec_def)

text \<open>An exception inside \<^verbatim>\<open>detect_silence\<close> leaves \<^verbatim>\<open>get_non_silent_chunks\<close> and is
  answered by the handler's \<^verbatim>\<open>except\<close> branch.\<close>

lemma detect_silence_raise_propagates:
  "detect_silence audio min_len thresh = None \<Longrightarrow>
   get_non_silent_chunks (Some audio) thresh min_len = Inl DetectSilenceRaised"
  by (simp add: get_non_silent_chunks_def)

lemma detect_silence_raise_is_internal_error:
  "clip video_file = Some video_clip \<Longrightarrow> has_audio video_clip \<Longrightarrow>
   written_audio video_clip = Some audio \<Longrightarrow>
   detect_silence audio min_len thresh = None \<Longrightarrow>
   try_block video_file thresh min_len = internal_error"
  by (simp add: try_block_def get_non_silent_chunks_def)

lemma invert_loop_acc:
  "invert_loop xs c acc = (acc @ fst (invert_loop xs c []), snd (invert_loop xs c []))"
proof (induction xs arbitrary: c acc)
  case Nil
  show ?case by simp
next
  case (Cons x xs)
  obtain s e where x: "x = (s, e)" by (cases x)
  show ?case
    unfolding x invert_loop.simps
    by (subst Cons.IH, subst (2 3) Cons.IH) simp
qed

lemma append_tail_eq:
  "append_tail D p = (if snd p < D then fst p @ [(sec (snd p), sec D)] else fst p)"
  by (cases p) simp

lemma append_tail_acc:
  "append_tail D (invert_loop xs c acc) = acc @ append_tail D (invert_loop xs c [])"
  by (subst invert_loop_acc) (simp add: append_tail_eq)

lemma from_cursor_Cons:
  "append_tail D (invert_loop ((s, e) # xs) c []) =
     (if s > c then [(sec c, sec s)] else []) @ append_tail D (invert_loop xs e [])"
  by (simp add: append_tail_acc [symmetric])

lemma coverage_append: "coverage t (xs @ ys) = coverage t xs + coverage t ys"
  by (simp add: coverage_def)

lemma coverage_Cons: "coverage t (c # cs) = (if covers t c then 1 else 0) + coverage t cs"
  by (simp add: coverage_def)

lemma coverage_Nil: "coverage t [] = 0"
  by (simp add: coverage_def)

lemma from_cursor_Nil:
  "append_tail D (invert_loop [] c []) = (if c < D then [(sec c, sec D)] else [])"
  by simp

lemma coverage_from_cursor:
  assumes "c \<le> D"
    and "\<forall>x \<in> set xs. c \<le> fst x \<and> fst x \<le> snd x \<and> snd x \<le> D"
    and "sorted_wrt (\<lambda>a b. snd a \<le> fst b) xs"
  shows "coverage t (append_tail D (invert_loop xs c []) @ map chunk_to_sec xs) =
           (if sec c \<le> t \<and> t < sec D then 1 else 0)"
  using assms
proof (induction xs arbitrary: c)
  case Nil
  then show ?case
    by (auto simp: coverage_Cons coverage_Nil covers_def sec_less_iff sec_le_iff
        simp del: append_tail.simps invert_loop.simps simp add: from_cursor_Nil)
next
  case (Cons x xs)
  obtain s e where x: "x = (s, e)" by (cases x)
  from Cons.prems x have b: "c \<le> s" "s \<le> e" "e \<le> D" by auto
  have "\<forall>y \<in> set xs. e \<le> fst y \<and> fst y \<le> snd y \<and> snd y \<le> D"
    using Cons.prems x by auto
  moreover have "sorted_wrt (\<lambda>a b. snd a \<le> fst b) xs" using Cons.prems by simp
  ultimately have IH: "coverage t (append_tail D (invert_loop xs e []) @ map chunk_to_sec xs) =
           (if sec e \<le> t \<and> t < sec D then 1 else 0)"
    using Cons.IH [of e] b by blast
  have le: "sec c \<le> sec s" "sec s \<le> sec e" "sec e \<le> sec D"
    using b by (simp_all add: sec_le_iff)
  have "coverage t (append_tail D (invert_loop (x # xs) c []) @ map chunk_to_sec (x # xs)) =
        coverage t (if s > c then [(sec c, sec s)] else []) + (if covers t (sec s, sec e) then 1 else 0)
         + coverage t (append_tail D (invert_loop xs e []) @ map chunk_to_sec xs)"
    unfolding x from_cursor_Cons
    by (simp add: coverage_append coverage_Cons chunk_to_sec_def del: append_tail.simps invert_loop.simps)
  also have "\<dots> = (if sec c \<le> t \<and> t < sec D then 1 else 0)"
    unfolding IH using le b
    by (auto simp: coverage_Cons coverage_Nil covers_def sec_less_iff)
  finally show ?case .
qed


lemma bounds_from_cursor:
  assumes "c \<le> D"
    and "\<forall>x \<in> set xs. c \<le> fst x \<and> fst x \<le> snd x \<and> snd x \<le> D"
    and "sorted_wrt (\<lambda>a b. snd a \<le> fst b) xs"
  shows "\<forall>k \<in> set (append_tail D (invert_loop xs c [])).
           sec c \<le> fst k \<and> fst k < snd k \<and> snd k \<le> sec D"
  using assms
proof (induction xs arbitrary: c)
  case Nil
  then show ?case by (simp add: sec_less_iff)
next
  case (Cons x xs)
  obtain s e where x: "x = (s, e)" by (cases x)
  from Cons.prems x have b: "c \<le> s" "s \<le> e" "e \<le> D" by auto
  have "\<forall>y \<in> set xs. e \<le> fst y \<and> fst y \<le> snd y \<and> snd y \<le> D"
    using Cons.prems x by auto
  moreover have "sorted_wrt (\<lambda>a b. snd a \<le> fst b) xs" using Cons.prems by simp
  ultimately have IH: "\<forall>k \<in> set (append_tail D (invert_loop xs e [])).
           sec e \<le> fst k \<and> fst k < snd k \<and> snd k \<le> sec D"
    using Cons.IH [of e] b by blast
  have le: "sec c \<le> sec s" "sec s \<le> sec e" "sec e \<le> sec D"
    using b by (simp_all add: sec_le_iff)
  show ?case
    unfolding x from_cursor_Cons using IH le
    by (auto simp: sec_less_iff simp del: append_tail.simps invert_loop.simps)
qed

lemma sorted_from_cursor:
  assumes "c \<le> D"
    and "\<forall>x \<in> set xs. c \<le> fst x \<and> fst x \<le> snd x \<and> snd x \<le> D"
    and "sorted_wrt (\<lambda>a b. snd a \<le> fst b) xs"
  shows "sorted_wrt before (append_tail D (invert_loop xs c []))"
  using assms
proof (induction xs arbitrary: c)
  case Nil
  then show ?case by simp
next
  case (Cons x xs)
  obtain s e where x: "x = (s, e)" by (cases x)
  from Cons.prems x have b: "c \<le> s" "s \<le> e" "e \<le> D" by auto
  have r: "\<forall>y \<in> set xs. e \<le> fst y \<and> fst y \<le> snd y \<and> snd y \<le> D"
    using Cons.prems x by auto
  have so: "sorted_wrt (\<lambda>a b. snd a \<le> fst b) xs" using Cons.prems by simp
  have IH: "sorted_wrt before (append_tail D (invert_loop xs e []))"
    using Cons.IH [of e] b r so by blast
  have bd: "\<forall>k \<in> set (append_tail D (invert_loop xs e [])).
           sec e \<le> fst k \<and> fst k < snd k \<and> snd k \<le> sec D"
    using bounds_from_cursor [of e D xs] b r so by blast
  have le: "sec c \<le> sec s" "sec s \<le> sec e" "sec e \<le> sec D"
    using b by (simp_all add: sec_le_iff)
  show ?case
  proof (cases "c < s")
    case True
    then have "sec c < sec s" by (simp add: sec_less_iff)
    then have "\<forall>k \<in> set (append_tail D (invert_loop xs e [])). before (sec c, sec s) k"
      using bd le by (fastforce simp: before_def)
    then show ?thesis
      unfolding x from_cursor_Cons using IH True
      by (simp del: append_tail.simps invert_loop.simps)
  next
    case False
    then show ?thesis
      unfolding x from_cursor_Cons using IH
      by (simp del: append_tail.simps invert_loop.simps)
  qed
qed

lemma wf_silence_cursor:
  assumes "wf_silence D xs"
  shows "\<forall>x \<in> set xs. 0 \<le> fst x \<and> fst x \<le> snd x \<and> snd x \<le> D"
    and "sorted_wrt (\<lambda>a b. snd a \<le> fst b) xs"
  using assms by (auto simp: wf_silence_def list_all_iff)

lemma wf_silence_nonempty: "wf_silence D xs \<Longrightarrow> xs \<noteq> [] \<Longrightarrow> 0 \<le> D"
  by (cases xs) (auto simp: wf_silence_def)

section \<open>The inversion of the silence list\<close>

text \<open>
  Claim C1. For every duration \<open>D > 0\<close> and every silence list that is well formed for
  \<open>D\<close>, the chunks returned by the inversion together with the silence ranges (in
  seconds) cover the timeline exactly once: every instant \<open>t\<close> of \<open>[0, D)\<close> lies in exactly
  one interval of the combined list (no gap, no overlap), and an instant outside \<open>[0, D)\<close>
  lies in none.
\<close>

theorem inversion_covers_timeline_once:
  assumes "0 < D" and "wf_silence D silence_chunks"
  shows "coverage t (invert_silence_chunks D silence_chunks @ map chunk_to_sec silence_chunks) =
           (if 0 \<le> t \<and> t < sec D then 1 else 0)"
proof (cases "silence_chunks = []")
  case True
  then show ?thesis
    by (simp add: invert_silence_chunks_def coverage_Cons coverage_Nil covers_def)
next
  case False
  have "0 \<le> D" using assms(1) by simp
  then have "coverage t (append_tail D (invert_loop silence_chunks 0 []) @
               map chunk_to_sec silence_chunks) =
             (if sec 0 \<le> t \<and> t < sec D then 1 else 0)"
    using coverage_from_cursor [of 0 D silence_chunks t] wf_silence_cursor [OF assms(2)]
    by blast
  with False show ?thesis
    by (simp add: invert_silence_chunks_def sec_zero)
qed

text \<open>
  The first scenario of the specification: ten seconds with silence from 2 s to 3 s and
  from 6 s to 6.4 s; the instant 2.5 s is covered once.
\<close>

theorem inversion_covers_timeline_once_witness:
  "(0::int) < 10000 \<and> wf_silence 10000 [(2000, 3000), (6000, 6400)] \<and>
   invert_silence_chunks 10000 [(2000, 3000), (6000, 6400)] = [(0, 2), (3, 6), (32 / 5, 10)] \<and>
   coverage (5 / 2)
     (invert_silence_chunks 10000 [(2000, 3000), (6000, 6400)] @
      map chunk_to_sec [(2000, 3000), (6000, 6400)]) = 1"
proof -
  have d: "(0::int) < 10000" by simp
  have w: "wf_silence 10000 [(2000, 3000), (6000, 6400)]"
    by (simp add: wf_silence_def)
  have v: "invert_silence_chunks 10000 [(2000, 3000), (6000, 6400)] = [(0, 2), (3, 6), (32 / 5, 10)]"
    by (simp add: invert_silence_chunks_def sec_def)
  show ?thesis
    using d w v inversion_covers_timeline_once [OF d w, of "5 / 2"]
    by (simp add: sec_def)
qed

text \<open>
  Claim C6. For every well-formed silence list, the returned chunks are sorted strictly
  ascending by start time and no two of them overlap: each chunk starts strictly before
  every later chunk and ends before or where that chunk starts.
\<close>

theorem keep_chunks_sorted_disjoint:
  assumes "wf_silence D silence_chunks"
  shows "sorted_wrt before (invert_silence_chunks D silence_chunks)"
proof (cases "silence_chunks = []")
  case True
  then show ?thesis by (simp add: invert_silence_chunks_def)
next
  case False
  then have "0 \<le> D" using assms wf_silence_nonempty by blast
  then have "sorted_wrt before (append_tail D (invert_loop silence_chunks 0 []))"
    using sorted_from_cursor [of 0 D silence_chunks] wf_silence_cursor [OF assms] by blast
  with False show ?thesis by (simp add: invert_silence_chunks_def)
qed

theorem keep_chunks_sorted_disjoint_witness:
  "wf_silence 10000 [(2000, 3000), (6000, 6400)] \<and>
   sorted_wrt before [(0, 2), (3, 6), (32 / 5, 10)]"
proof -
  have w: "wf_silence 10000 [(2000, 3000), (6000, 6400)]"
    by (simp add: wf_silence_def)
  have v: "invert_silence_chunks 10000 [(2000, 3000), (6000, 6400)] = [(0, 2), (3, 6), (32 / 5, 10)]"
    by (simp add: invert_silence_chunks_def sec_def)
  show ?thesis
    using w keep_chunks_sorted_disjoint [OF w] unfolding v by simp
qed

text \<open>
  Claim C7. For every well-formed silence list and every duration \<open>D\<close> (never negative,
  as \<^verbatim>\<open>len(audio)\<close> is), no returned chunk has a negative duration and no returned
  chunk ends after \<open>D\<close>; a silence range that ends at \<open>D\<close> is allowed.
\<close>

theorem keep_chunks_within_duration:
  assumes "0 \<le> D" and "wf_silence D silence_chunks"
  shows "list_all (\<lambda>k. 0 \<le> fst k \<and> fst k \<le> snd k \<and> snd k \<le> sec D)
           (invert_silence_chunks D silence_chunks)"
proof (cases "silence_chunks = []")
  case True
  with assms(1) show ?thesis
    by (simp add: invert_silence_chunks_def sec_def)
next
  case False
  have "\<forall>k \<in> set (append_tail D (invert_loop silence_chunks 0 [])).
           sec 0 \<le> fst k \<and> fst k < snd k \<and> snd k \<le> sec D"
    using bounds_from_cursor [of 0 D silence_chunks] assms(1) wf_silence_cursor [OF assms(2)]
    by blast
  then have "\<forall>k \<in> set (invert_silence_chunks D silence_chunks).
           0 \<le> fst k \<and> fst k \<le> snd k \<and> snd k \<le> sec D"
    using False by (auto simp: invert_silence_chunks_def sec_zero)
  then show ?thesis by (simp add: list_all_iff)
qed

theorem keep_chunks_within_duration_witness:
  "(0::int) \<le> 5000 \<and> wf_silence 5000 [(1000, 2000), (4000, 5000)] \<and>
   list_all (\<lambda>k. 0 \<le> fst k \<and> fst k \<le> snd k \<and> snd k \<le> sec 5000)
     (invert_silence_chunks 5000 [(1000, 2000), (4000, 5000)]) \<and>
   invert_silence_chunks 5000 [(1000, 2000), (4000, 5000)] = [(0, 1), (2, 4)]"
proof -
  have d: "(0::int) \<le> 5000" by simp
  have w: "wf_silence 5000 [(1000, 2000), (4000, 5000)]"
    by (simp add: wf_silence_def)
  have v: "invert_silence_chunks 5000 [(1000, 2000), (4000, 5000)] = [(0, 1), (2, 4)]"
    by (simp add: invert_silence_chunks_def sec_def)
  show ?thesis
    using d w v keep_chunks_within_duration [OF d w] by simp
qed

text \<open>
  Claim C3. Inverting the single silence range \<open>(0, D)\<close> against the duration \<open>D\<close> gives
  the empty list; this holds for every \<open>D\<close>, so for every \<open>D > 0\<close>.
\<close>

theorem full_silence_gives_no_chunk:
  "invert_silence_chunks D [(0, D)] = []"
  by (simp add: invert_silence_chunks_def)

text \<open>
  Claim C4. When \<^verbatim>\<open>detect_silence\<close> returns the empty list,
  \<^verbatim>\<open>get_non_silent_chunks\<close> returns normally (an \<open>Inr\<close> value, no exception) the single
  chunk from 0 to the whole duration; this holds for every duration, so for every
  \<open>D > 0\<close>.
\<close>

theorem no_silence_gives_whole_timeline:
  assumes "detect_silence audio min_len thresh = Some []"
  shows "get_non_silent_chunks (Some audio) thresh min_len = Inr [(0, sec (len audio))]"
  using assms by (simp add: get_non_silent_chunks_def invert_silence_chunks_def)

theorem no_silence_gives_whole_timeline_witness:
  "detect_silence quiet_start_audio 500 (- 40) = Some [] \<and>
   get_non_silent_chunks (Some quiet_start_audio) (- 40) 500 = Inr [(0, 1)]"
proof -
  have h: "detect_silence quiet_start_audio 500 (- 40) = Some []"
    by (simp add: quiet_start_audio_def)
  show ?thesis
    using h no_silence_gives_whole_timeline [OF h]
    by (simp add: quiet_start_audio_def sec_def)
qed

section \<open>The request handler\<close>

text \<open>
  Claim C5. For every sensitivity percent \<open>p\<close> the threshold is \<open>-70 + p\<close>: 30 gives
  \<open>-40\<close>, 10 gives \<open>-60\<close>, 50 gives \<open>-20\<close>. The mapping is a function of \<open>p\<close> alone, so
  the same percent always gives the same threshold. The minimum silence length is the
  constant 500 ms. These are the two values the handler runs the detection with.
\<close>

theorem threshold_mapping:
  "silence_thresh_db_of p = - 70 + p \<and>
   silence_thresh_db_of 30 = - 40 \<and>
   silence_thresh_db_of 10 = - 60 \<and>
   silence_thresh_db_of 50 = - 20 \<and>
   min_silence_len_ms = 500 \<and>
   process_video \<lparr>video = Some video_file, threshold = Some (Numeric p)\<rparr> =
     try_block video_file (- 70 + p) 500"
  by (simp add: silence_thresh_db_of_def min_silence_len_ms_def process_video_def)

text \<open>
  Claim C10. When the form has no \<^verbatim>\<open>threshold\<close> field the percent is 30: the handler
  runs the detection at \<open>-40\<close> dB and 500 ms, answers what it answers for an explicit
  \<^verbatim>\<open>threshold\<close> of 30, and the missing field raises nothing.
\<close>

theorem missing_threshold_defaults_to_30:
  "threshold_percent_of None = Inr 30 \<and>
   process_video \<lparr>video = Some video_file, threshold = None\<rparr> =
     try_block video_file (- 40) 500 \<and>
   process_video \<lparr>video = Some video_file, threshold = None\<rparr> =
     process_video \<lparr>video = Some video_file, threshold = Some (Numeric 30)\<rparr> \<and>
   process_video \<lparr>video = v, threshold = None\<rparr> \<noteq> Uncaught e"
  by (cases v) (simp_all add: silence_thresh_db_of_def min_silence_len_ms_def process_video_def
      try_block_def internal_error_def split: option.splits sum.splits)

text \<open>
  Claim C9. When \<^verbatim>\<open>get_non_silent_chunks\<close> returns the empty list, the handler answers
  the JSON error \<^verbatim>\<open>No audio detected in the video\<close> with status 400. A file is sent only
  for a list that is not empty. And the answer does not depend on what the assembly of
  an empty list would do: the handler never asks for it.
\<close>

theorem empty_keep_list_is_an_error_response:
  "(video req = Some video_file \<and> threshold_percent_of (threshold req) = Inr p \<and>
    clip video_file = Some video_clip \<and> has_audio video_clip \<and>
    get_non_silent_chunks (written_audio video_clip) (silence_thresh_db_of p)
      min_silence_len_ms = Inr []
    \<longrightarrow> process_video req = JsonError ''No audio detected in the video'' 400) \<and>
   (\<forall>name chunks. process_video req = SendFile name chunks \<longrightarrow> chunks \<noteq> []) \<and>
   process_video \<lparr>video = Some \<lparr>filename = name,
       clip = Some (video_clip\<lparr>assembles := (assembles video_clip)([] := b)\<rparr>)\<rparr>,
       threshold = field\<rparr> =
   process_video \<lparr>video = Some \<lparr>filename = name, clip = Some video_clip\<rparr>,
       threshold = field\<rparr>"
  by (auto simp: process_video_def try_block_def internal_error_def
      split: option.splits sum.splits if_splits)

text \<open>A recording that is silent from start to end, sent without a \<^verbatim>\<open>threshold\<close> field.\<close>

theorem empty_keep_list_is_an_error_response_witness:
  "process_video all_quiet_request = JsonError ''No audio detected in the video'' 400"
proof -
  have h: "video all_quiet_request =
      Some \<lparr>filename = ''talk.mp4'',
            clip = Some \<lparr>has_audio = True, written_audio = Some all_quiet_audio,
                         assembles = (\<lambda>ts. True)\<rparr>\<rparr>"
    by (simp add: all_quiet_request_def)
  have t: "threshold_percent_of (threshold all_quiet_request) = Inr 30"
    by (simp add: all_quiet_request_def)
  have g: "get_non_silent_chunks (Some all_quiet_audio) (silence_thresh_db_of 30)
      min_silence_len_ms = Inr []"
    by (simp add: get_non_silent_chunks_def all_quiet_audio_def invert_silence_chunks_def)
  show ?thesis
    using h t g empty_keep_list_is_an_error_response [of all_quiet_request
        "\<lparr>filename = ''talk.mp4'',
          clip = Some \<lparr>has_audio = True, written_audio = Some all_quiet_audio,
                       assembles = (\<lambda>ts. True)\<rparr>\<rparr>" 30
        "\<lparr>has_audio = True, written_audio = Some all_quiet_audio,
          assembles = (\<lambda>ts. True)\<rparr>"]
    by simp
qed

section \<open>Where the code checks nothing\<close>

text \<open>
  Claim C2, as stated, fails: the handler has no check of the range 10 to 50. A
  \<^verbatim>\<open>threshold\<close> of 60 is mapped to \<open>-10\<close> dB and used: the sample recording, whose quiet
  first half is found only at \<open>-15\<close> dB or above, comes back cut to its second half.
\<close>

theorem out_of_range_threshold_counterexample:
  "process_video (quiet_start_request (Some (Numeric 60))) =
     SendFile ''processed_talk.mp4'' [(1 / 2, 1)]"
  by (simp add: process_video_def try_block_def quiet_start_request_def quiet_start_audio_def
      silence_thresh_db_of_def min_silence_len_ms_def get_non_silent_chunks_def
      invert_silence_chunks_def sec_def)

text \<open>
  Claim C2, amended. The percent is neither clamped nor validated: for every number \<open>p\<close>
  in the \<^verbatim>\<open>threshold\<close> field, inside the range 10 to 50 or outside it, the handler runs
  the detection at \<open>-70 + p\<close> dB, and no value of \<open>p\<close> makes it raise.
\<close>

theorem every_threshold_is_mapped_and_used:
  "process_video \<lparr>video = Some video_file, threshold = Some (Numeric p)\<rparr> =
     try_block video_file (silence_thresh_db_of p) min_silence_len_ms \<and>
   silence_thresh_db_of p = - 70 + p \<and>
   process_video \<lparr>video = v, threshold = Some (Numeric p)\<rparr> \<noteq> Uncaught e"
  by (cases v) (simp_all add: silence_thresh_db_of_def process_video_def
      try_block_def internal_error_def split: option.splits sum.splits)

text \<open>
  Claim C8, as stated, fails: \<^verbatim>\<open>get_non_silent_chunks\<close> has no check of the duration.
  For a decoded audio of length zero on which no silence is found it returns a list,
  the single chunk from 0 to 0.
\<close>

theorem zero_duration_counterexample:
  "get_non_silent_chunks (Some zero_length_audio) (- 40) 500 = Inr [(0, 0)]"
  by (simp add: get_non_silent_chunks_def invert_silence_chunks_def zero_length_audio_def sec_def)

text \<open>
  Claim C8, amended. For an audio of duration zero on which \<^verbatim>\<open>detect_silence\<close> returns
  no silence, \<^verbatim>\<open>get_non_silent_chunks\<close> does not fail: it returns normally the single
  chunk \<open>(0, 0)\<close>.
\<close>

theorem zero_duration_is_not_rejected:
  assumes "len audio = 0" and "detect_silence audio min_len thresh = Some []"
  shows "get_non_silent_chunks (Some audio) thresh min_len = Inr [(0, 0)]"
  using assms by (simp add: get_non_silent_chunks_def invert_silence_chunks_def sec_def)

theorem zero_duration_is_not_rejected_witness:
  "len zero_length_audio = 0 \<and> detect_silence zero_length_audio 500 (- 20) = Some [] \<and>
   get_non_silent_chunks (Some zero_length_audio) (- 20) 500 = Inr [(0, 0)]"
proof -
  have l: "len zero_length_audio = 0"
    by (simp add: zero_length_audio_def)
  have d: "detect_silence zero_length_audio 500 (- 20) = Some []"
    by (simp add: zero_length_audio_def)
  show ?thesis
    using l d zero_duration_is_not_rejected [OF l d] by simp
qed

end
